theory Spec2Isabelle
  imports Main
begin

section \<open>JavaScript values and defaults\<close>

text \<open>
  The module stores plain values in world settings and tests them with JavaScript's
  truthiness (\<open>x || d\<close>, \<open>!x\<close>) and strict inequality (\<open>x !== false\<close>). Numbers
  are the integers the module works with (levels, slot counts).
\<close>

datatype jsval = JUndefined | JNull | JBool bool | JNum int | JStr string

fun truthy :: "jsval \<Rightarrow> bool" where
  "truthy JUndefined = False"
| "truthy JNull = False"
| "truthy (JBool b) = b"
| "truthy (JNum n) = (n \<noteq> 0)"
| "truthy (JStr s) = (s \<noteq> [])"

text \<open>\<open>a || b\<close> on values.\<close>

definition js_or :: "jsval \<Rightarrow> jsval \<Rightarrow> jsval" where
  "js_or a b = (if truthy a then a else b)"

text \<open>
  \<open>x || d\<close> where \<open>x\<close> is a number that may be missing: \<open>undefined\<close> and \<open>0\<close>
  both give the default.
\<close>

fun or_nat :: "nat option \<Rightarrow> nat \<Rightarrow> nat" where
  "or_nat None d = d"
| "or_nat (Some n) d = (if n = 0 then d else n)"

fun or_int :: "int option \<Rightarrow> int \<Rightarrow> int" where
  "or_int None d = d"
| "or_int (Some n) d = (if n = 0 then d else n)"

text \<open>\<open>xs[i]\<close>: reading past the end of an array gives \<open>undefined\<close>.\<close>

definition array_get :: "'a list \<Rightarrow> nat \<Rightarrow> 'a option" where
  "array_get xs i = (if i < length xs then Some (xs ! i) else None)"

section \<open>Level tables\<close>

text \<open>
  \<open>CONFIG.DND5E.facilities.advancement\<close> maps each facility type to an object whose
  keys are character levels and whose values are slot counts. A table is written as its
  object literal, \<open>{1: 2, 5: 3}\<close> being \<open>[(1, 2), (5, 3)]\<close>; a key written twice
  keeps the value written last. Level keys are array-index keys, which
  \<open>Object.entries\<close> enumerates in ascending numeric order whatever the order they
  were written in.
\<close>

type_synonym level_table = "(nat \<times> int) list"

definition get_prop :: "level_table \<Rightarrow> nat \<Rightarrow> int option" where
  "get_prop t k = map_of (rev t) k"

definition own_keys :: "level_table \<Rightarrow> nat list" where
  "own_keys t = sort (remdups (map fst t))"

definition Object_entries :: "level_table \<Rightarrow> (nat \<times> int) list" where
  "Object_entries t =
     List.map_filter (\<lambda>k. map_option (Pair k) (get_prop t k)) (own_keys t)"

text \<open>
  \<open>const [, baseAvailable] =
     Object.entries(config).reverse().find(([lvl]) => Number(lvl) <= level) || [];\<close>
  The result is \<open>None\<close> where the destructuring leaves \<open>baseAvailable\<close> undefined.
\<close>

definition find_available :: "level_table \<Rightarrow> nat \<Rightarrow> int option" where
  "find_available config level =
     map_option snd (List.find (\<lambda>(lvl, _). lvl \<le> level) (rev (Object_entries config)))"

datatype facility_type = Basic | Special

record advancement =
  adv_basic :: level_table
  adv_special :: level_table

text \<open>\<open>Object.entries(advancement)\<close>: the two facility types with their tables.\<close>

definition advancement_entries :: "advancement \<Rightarrow> (facility_type \<times> level_table) list" where
  "advancement_entries adv = [(Basic, adv_basic adv), (Special, adv_special adv)]"

fun type_name :: "facility_type \<Rightarrow> string" where
  "type_name Basic = ''basic''"
| "type_name Special = ''special''"

section \<open>Documents\<close>

text \<open>
  An occupant list of a facility (\<open>system.defenders\<close>, \<open>system.hirelings\<close>,
  \<open>system.trade.creatures\<close>): the stored references and the capacity, either of
  which may be missing.
\<close>

record occupant_data =
  occ_value :: "string list option"
  occ_max :: "nat option"

text \<open>
  A document as \<open>fromUuid\<close> returns it and as an actor embeds it. \<open>doc_type\<close> is the
  document's \<open>type\<close> (\<open>'facility'\<close> for a facility item), \<open>type_value\<close> is
  \<open>system.type.value\<close> and \<open>doc_level\<close> is \<open>system.level\<close>.
\<close>

record document =
  doc_id :: string
  doc_uuid :: string
  doc_name :: string
  doc_img :: string
  doc_type :: string
  type_value :: "string option"
  doc_level :: "nat option"
  free :: bool
  building :: bool
  disabled :: bool
  defenders :: "occupant_data option"
  hirelings :: "occupant_data option"
  creatures :: "occupant_data option"

text \<open>
  An actor: \<open>isOwner\<close> is the host's flag for the user of the running client
  (\<open>game.user\<close>), \<open>ownership\<close> the stored permission level of each user, \<open>level\<close>
  is \<open>system.details?.level\<close>.
\<close>

record actor =
  actor_id :: string
  actor_name :: string
  isOwner :: bool
  ownership :: "string \<rightharpoonup> nat"
  level :: "nat option"
  items :: "document list"

record building_overrides =
  ov_basic :: "int option"
  ov_special :: "int option"

record visibility =
  public :: jsval
  users :: "string list option"

record user =
  isGM :: bool

text \<open>
  The host's globals the module reads: the users, the actors, the four settings of the
  module (each may be unset), the advancement tables of the game system and the
  resolution of a UUID to a document.
\<close>

record game =
  game_user :: string
  game_users :: "string \<rightharpoonup> user"
  game_actors :: "string \<rightharpoonup> actor"
  buildingOverrides :: "(string \<rightharpoonup> building_overrides) option"
  visibilitySettings :: "(string \<rightharpoonup> visibility) option"
  enabledBastions :: "(string \<rightharpoonup> jsval) option"
  facilities_advancement :: advancement
  fromUuid :: "string \<Rightarrow> document option"

text \<open>\<open>game.settings.get(MODULE_ID, key) || {}\<close>\<close>

definition or_empty :: "('k \<rightharpoonup> 'v) option \<Rightarrow> ('k \<rightharpoonup> 'v)" where
  "or_empty s = (case s of None \<Rightarrow> Map.empty | Some m \<Rightarrow> m)"

section \<open>The module's manager (module.mjs)\<close>

definition getBuildingOverrides :: "game \<Rightarrow> string \<Rightarrow> building_overrides" where
  "getBuildingOverrides g actorId =
     (case or_empty (buildingOverrides g) actorId of
        None \<Rightarrow> \<lparr>ov_basic = Some 0, ov_special = Some 0\<rparr>
      | Some ov \<Rightarrow> ov)"

text \<open>
  \<open>canViewBastion\<close> returns the value of
  \<open>actorVisibility.public || actorVisibility.users?.includes(userId)\<close> when neither
  the GM test nor the owner test succeeds; the owner test reads \<open>actor?.isOwner\<close>.
\<close>

definition users_includes :: "string list option \<Rightarrow> string \<Rightarrow> jsval" where
  "users_includes us userId =
     (case us of None \<Rightarrow> JUndefined | Some l \<Rightarrow> JBool (userId \<in> set l))"

definition canViewBastion :: "game \<Rightarrow> string \<Rightarrow> string \<Rightarrow> jsval" where
  "canViewBastion g actorId userId =
     (if (case game_users g userId of None \<Rightarrow> False | Some u \<Rightarrow> isGM u) then JBool True
      else if (case game_actors g actorId of None \<Rightarrow> False | Some a \<Rightarrow> isOwner a)
      then JBool True
      else
        (case or_empty (visibilitySettings g) actorId of
           None \<Rightarrow> js_or JUndefined (users_includes None userId)
         | Some actorVisibility \<Rightarrow>
             js_or (public actorVisibility) (users_includes (users actorVisibility) userId)))"

text \<open>\<open>return enabled[actorId] !== false;\<close>\<close>

definition js_get :: "(string \<rightharpoonup> jsval) \<Rightarrow> string \<Rightarrow> jsval" where
  "js_get obj k = (case obj k of None \<Rightarrow> JUndefined | Some v \<Rightarrow> v)"

definition isBastionEnabled :: "game \<Rightarrow> string \<Rightarrow> bool" where
  "isBastionEnabled g actorId = (js_get (or_empty (enabledBastions g)) actorId \<noteq> JBool False)"

section \<open>The detail view (bastion-detail.mjs)\<close>

subsection \<open>Occupant slots\<close>

record actor_summary =
  sum_name :: string
  sum_img :: string
  sum_uuid :: string

record slot =
  slot_index :: nat
  slot_uuid :: "string option"
  slot_actor :: "actor_summary option"
  slot_empty :: bool

text \<open>
  The body of the loop of \<open>_prepareOccupants\<close>: \<open>uuids[i]\<close> is tested for truthiness
  (a missing element and the empty string are falsy), a truthy one is resolved with
  \<open>fromUuid\<close>, and the slot is marked \<open>empty: !actor\<close>.
\<close>

definition make_slot :: "(string \<Rightarrow> document option) \<Rightarrow> string list \<Rightarrow> nat \<Rightarrow> slot" where
  "make_slot resolve uuids i =
     (case array_get uuids i of
        None \<Rightarrow> \<lparr>slot_index = i, slot_uuid = None, slot_actor = None, slot_empty = True\<rparr>
      | Some uuid \<Rightarrow>
          if uuid \<noteq> [] then
            (case resolve uuid of
               None \<Rightarrow>
                 \<lparr>slot_index = i, slot_uuid = Some uuid, slot_actor = None, slot_empty = True\<rparr>
             | Some a \<Rightarrow>
                 \<lparr>slot_index = i, slot_uuid = Some uuid,
                  slot_actor = Some \<lparr>sum_name = doc_name a, sum_img = doc_img a,
                                      sum_uuid = doc_uuid a\<rparr>,
                  slot_empty = False\<rparr>)
          else \<lparr>slot_index = i, slot_uuid = None, slot_actor = None, slot_empty = True\<rparr>)"

text \<open>\<open>for (let i = 0; i < max; i++) { ... occupants.push(...) }\<close>\<close>

function occupants_loop ::
  "(string \<Rightarrow> document option) \<Rightarrow> string list \<Rightarrow> nat \<Rightarrow> nat \<Rightarrow> slot list \<Rightarrow> slot list" where
  "occupants_loop resolve uuids mx i occupants =
     (if i < mx
      then occupants_loop resolve uuids mx (Suc i) (occupants @ [make_slot resolve uuids i])
      else occupants)"
  by pat_completeness auto
termination
  by (relation "measure (\<lambda>(resolve, uuids, mx, i, occupants). mx - i)") auto

text \<open>\<open>!n\<close> for a number that may be missing.\<close>

definition falsy_nat :: "nat option \<Rightarrow> bool" where
  "falsy_nat x = (case x of None \<Rightarrow> True | Some n \<Rightarrow> n = 0)"

definition value_length :: "occupant_data option \<Rightarrow> nat option" where
  "value_length occupantData =
     (case occupantData of
        None \<Rightarrow> None
      | Some d \<Rightarrow> map_option length (occ_value d))"

definition data_max :: "occupant_data option \<Rightarrow> nat option" where
  "data_max occupantData = (case occupantData of None \<Rightarrow> None | Some d \<Rightarrow> occ_max d)"

definition data_value :: "occupant_data option \<Rightarrow> string list option" where
  "data_value occupantData = (case occupantData of None \<Rightarrow> None | Some d \<Rightarrow> occ_value d)"

definition prepareOccupants ::
  "(string \<Rightarrow> document option) \<Rightarrow> occupant_data option \<Rightarrow> slot list" where
  "prepareOccupants resolve occupantData =
     (if falsy_nat (value_length occupantData) \<and> falsy_nat (data_max occupantData) then []
      else
        let mx = or_nat (data_max occupantData) 0;
            uuids = (case data_value occupantData of None \<Rightarrow> [] | Some v \<Rightarrow> v)
        in occupants_loop resolve uuids mx 0 [])"

subsection \<open>Facilities and slot counts\<close>

record facility_ctx =
  ctx_id :: string
  ctx_uuid :: string
  ctx_name :: string
  isSpecial :: bool
  ctx_disabled :: bool
  ctx_building :: bool
  ctx_free :: bool
  ctx_defenders :: "slot list"
  ctx_hirelings :: "slot list"
  ctx_creatures :: "slot list"
  hasOccupants :: bool

text \<open>
  \<open>_prepareFacilityContext\<close>, without the progress bar, the order icon, the crafted
  item and the subtitle, which no slot count reads.
\<close>

definition prepareFacilityContext :: "game \<Rightarrow> document \<Rightarrow> facility_ctx" where
  "prepareFacilityContext g facility =
     (let ds = prepareOccupants (fromUuid g) (defenders facility);
          hs = prepareOccupants (fromUuid g) (hirelings facility);
          cs = prepareOccupants (fromUuid g) (creatures facility)
      in \<lparr>ctx_id = doc_id facility, ctx_uuid = doc_uuid facility, ctx_name = doc_name facility,
          isSpecial = (type_value facility = Some ''special''),
          ctx_disabled = disabled facility, ctx_building = building facility,
          ctx_free = free facility,
          ctx_defenders = ds, ctx_hirelings = hs, ctx_creatures = cs,
          hasOccupants = (length ds > 0 \<or> length hs > 0 \<or> length cs > 0)\<rparr>)"

text \<open>
  One category of the facilities context. \<open>value\<close>, \<open>max\<close>, \<open>override\<close> and
  \<open>available\<close> are unset until the loop over the advancement tables assigns them.
\<close>

record category_ctx =
  chosen :: "facility_ctx list"
  cat_value :: "nat option"
  cat_max :: "int option"
  cat_override :: "int option"
  available :: "string list option"

record facilities_ctx =
  basic :: category_ctx
  special :: category_ctx

datatype js_error = TypeError

definition facility_items :: "actor \<Rightarrow> document list" where
  "facility_items a = filter (\<lambda>d. doc_type d = ''facility'') (items a)"

text \<open>The first loop: each facility's context is pushed to its category.\<close>

fun choose_facilities :: "game \<Rightarrow> document list \<Rightarrow> facilities_ctx \<Rightarrow> facilities_ctx" where
  "choose_facilities g [] facilities = facilities"
| "choose_facilities g (facility # rest) facilities =
     (let ctx = prepareFacilityContext g facility
      in if isSpecial ctx
         then choose_facilities g rest
                (facilities\<lparr>special := (special facilities)\<lparr>chosen := chosen (special facilities) @ [ctx]\<rparr>\<rparr>)
         else choose_facilities g rest
                (facilities\<lparr>basic := (basic facilities)\<lparr>chosen := chosen (basic facilities) @ [ctx]\<rparr>\<rparr>))"

definition get_category :: "facility_type \<Rightarrow> facilities_ctx \<Rightarrow> category_ctx" where
  "get_category ty facilities = (case ty of Basic \<Rightarrow> basic facilities | Special \<Rightarrow> special facilities)"

definition set_category :: "facility_type \<Rightarrow> category_ctx \<Rightarrow> facilities_ctx \<Rightarrow> facilities_ctx" where
  "set_category ty c facilities =
     (case ty of Basic \<Rightarrow> facilities\<lparr>basic := c\<rparr> | Special \<Rightarrow> facilities\<lparr>special := c\<rparr>)"

definition free_label :: "facility_type \<Rightarrow> string" where
  "free_label ty = ''DND5E.FACILITY.AvailableFacility.'' @ type_name ty @ ''.free''"

text \<open>The body of the second loop, for one entry of \<open>Object.entries(advancement)\<close>.\<close>

definition slot_step ::
  "nat \<Rightarrow> building_overrides \<Rightarrow> facility_type \<times> level_table \<Rightarrow> facilities_ctx \<Rightarrow> facilities_ctx" where
  "slot_step lv overrides entry facilities =
     (let ty = fst entry; config = snd entry;
          baseAvailable = find_available config lv;
          override = (if ty = Basic then or_int (ov_basic overrides) 0
                      else or_int (ov_special overrides) 0);
          totalAvailable = or_int baseAvailable 0 + override;
          cat = get_category ty facilities;
          current = length (filter (\<lambda>f. ty = Basic \<or> \<not> ctx_free f) (chosen cat));
          remaining = max 0 (totalAvailable - int current)
      in set_category ty
           (cat\<lparr>cat_value := Some current, cat_max := Some totalAvailable,
                cat_override := Some override,
                available := Some (replicate (nat remaining) (free_label ty))\<rparr>)
           facilities)"

definition build_label :: string where
  "build_label = ''DND5E.FACILITY.AvailableFacility.basic.build''"

text \<open>
  \<open>_prepareFacilitiesContext\<close> for the actor \<open>game.actors.get(this.actorId)\<close>. Reading
  \<open>.length\<close> of an \<open>available\<close> that was never assigned is a \<open>TypeError\<close>.
\<close>

definition prepareFacilitiesContext :: "game \<Rightarrow> string \<Rightarrow> js_error + facilities_ctx" where
  "prepareFacilitiesContext g actorId =
     (case game_actors g actorId of
        None \<Rightarrow>
          Inr \<lparr>basic = \<lparr>chosen = [], cat_value = None, cat_max = None, cat_override = None,
                        available = Some []\<rparr>,
               special = \<lparr>chosen = [], cat_value = None, cat_max = None, cat_override = None,
                          available = Some []\<rparr>\<rparr>
      | Some a \<Rightarrow>
          let facilities0 =
                \<lparr>basic = \<lparr>chosen = [], cat_value = None, cat_max = None, cat_override = None,
                           available = None\<rparr>,
                 special = \<lparr>chosen = [], cat_value = None, cat_max = None, cat_override = None,
                             available = None\<rparr>\<rparr>;
              facilities1 = choose_facilities g (facility_items a) facilities0;
              lv = or_nat (level a) 1;
              overrides = getBuildingOverrides g actorId;
              facilities2 =
                fold (slot_step lv overrides) (advancement_entries (facilities_advancement g))
                  facilities1
          in (case available (basic facilities2) of
                None \<Rightarrow> Inl TypeError
              | Some av \<Rightarrow>
                  if length av = 0
                  then Inr (facilities2\<lparr>basic := (basic facilities2)\<lparr>available := Some (av @ [build_label])\<rparr>\<rparr>)
                  else Inr facilities2))"

section \<open>The overview (bastion-overview.mjs)\<close>

text \<open>
  The building limits that \<open>_prepareBastionsContext\<close> computes for one actor's card:
  \<open>let basicMax = 0, specialMax = 0;\<close> and the loop over the advancement tables.
\<close>

definition limits_step ::
  "nat \<Rightarrow> building_overrides \<Rightarrow> facility_type \<times> level_table \<Rightarrow> int \<times> int \<Rightarrow> int \<times> int" where
  "limits_step lv overrides entry limits =
     (let ty = fst entry; config = snd entry;
          avail = find_available config lv
      in if ty = Basic then (or_int avail 0 + or_int (ov_basic overrides) 0, snd limits)
         else (fst limits, or_int avail 0 + or_int (ov_special overrides) 0))"

definition building_limits :: "game \<Rightarrow> actor \<Rightarrow> int \<times> int" where
  "building_limits g a =
     (let overrides = getBuildingOverrides g (actor_id a);
          lv = or_nat (level a) 1
      in fold (limits_step lv overrides) (advancement_entries (facilities_advancement g)) (0, 0))"

section \<open>Drop handlers (bastion-detail.mjs)\<close>

text \<open>
  What a handler asks of the host, in order: a notification of a severity
  (\<open>ui.notifications.info\<close>, \<open>warn\<close>, \<open>error\<close>) with its message key, a document
  mutation (\<open>createEmbeddedDocuments\<close> on the actor, \<open>update\<close> of an occupant list of
  a facility), a re-render.
\<close>

datatype severity = Info | Warn | Error

datatype effect =
    Notify severity string
  | CreateEmbeddedDocuments "document list"
  | UpdateValue string string "string list"
  | Render

record drag_data =
  drag_type :: string
  drag_uuid :: string

text \<open>\<open>!s\<close> for a string that may be missing (a \<open>dataset\<close> entry).\<close>

definition falsy_str :: "string option \<Rightarrow> bool" where
  "falsy_str x = (case x of None \<Rightarrow> True | Some s \<Rightarrow> s = [])"

text \<open>
  \<open>foundry.utils.getProperty(facility, prop)\<close> for the paths the occupant slots carry
  in \<open>data-prop\<close>; any other path is taken to hold no occupant list.
\<close>

definition getProperty :: "document \<Rightarrow> string \<Rightarrow> occupant_data option" where
  "getProperty facility prop =
     (if prop = ''system.defenders'' then defenders facility
      else if prop = ''system.hirelings'' then hirelings facility
      else if prop = ''system.trade.creatures'' then creatures facility
      else None)"

text \<open>\<open>this.actor?.items.get(facilityId)\<close>\<close>

definition items_get :: "actor option \<Rightarrow> string \<Rightarrow> document option" where
  "items_get a facilityId =
     (case a of None \<Rightarrow> None | Some a' \<Rightarrow> List.find (\<lambda>d. doc_id d = facilityId) (items a'))"

text \<open>
  \<open>_onDropActor\<close>: \<open>dropped\<close> is the decoded drag payload, \<open>facilityId\<close> and \<open>prop\<close>
  are read from the drop target.
\<close>

definition onDropActor ::
  "game \<Rightarrow> string \<Rightarrow> drag_data option \<Rightarrow> string option \<Rightarrow> string option \<Rightarrow> effect list" where
  "onDropActor g actorId dropped facilityId prop =
     (case dropped of
        None \<Rightarrow> []
      | Some d \<Rightarrow>
          if drag_type d \<noteq> ''Actor'' then []
          else
            (case (facilityId, prop) of
               (Some fid, Some p) \<Rightarrow>
                 if fid = [] \<or> p = [] then []
                 else
                   (case items_get (game_actors g actorId) fid of
                      None \<Rightarrow> []
                    | Some facility \<Rightarrow>
                        let od = getProperty facility p;
                            mx = data_max od;
                            val = data_value od
                        in if or_nat (map_option length val) 0 \<ge> or_nat mx 0
                           then [Notify Warn ''BASTION_MANAGER.Warnings.SlotFull'']
                           else [UpdateValue fid (p @ ''.value'')
                                   ((case val of None \<Rightarrow> [] | Some v \<Rightarrow> v) @ [drag_uuid d]),
                                 Render])
             | _ \<Rightarrow> []))"

text \<open>
  \<open>_onDropFacility\<close>: \<open>facilityType\<close> is the drop target's \<open>data-facility-type\<close>.
  A GM dropping on the view of an actor that no longer exists passes the first guard;
  reading \<open>this.actor.system\<close> for the level is then a \<open>TypeError\<close>.
\<close>

definition onDropFacility ::
  "game \<Rightarrow> string \<Rightarrow> drag_data option \<Rightarrow> string option \<Rightarrow> js_error + effect list" where
  "onDropFacility g actorId dropped facilityType =
     (let this_actor = game_actors g actorId;
          user_isGM = (case game_users g (game_user g) of None \<Rightarrow> False | Some u \<Rightarrow> isGM u)
      in if \<not> (case this_actor of None \<Rightarrow> False | Some a \<Rightarrow> isOwner a) \<and> \<not> user_isGM
         then Inr []
         else
           (case dropped of
              None \<Rightarrow> Inr []
            | Some d \<Rightarrow>
                if drag_type d \<noteq> ''Item'' then Inr []
                else if falsy_str facilityType then Inr []
                else
                  (case fromUuid g (drag_uuid d) of
                     None \<Rightarrow> Inr [Notify Error ''BASTION_MANAGER.Warnings.ItemNotFound'']
                   | Some item \<Rightarrow>
                       if doc_type item \<noteq> ''facility''
                       then Inr [Notify Warn ''BASTION_MANAGER.Warnings.NotAFacility'']
                       else if type_value item \<noteq> facilityType
                       then Inr [Notify Warn ''BASTION_MANAGER.Warnings.WrongFacilityType'']
                       else
                         (case this_actor of
                            None \<Rightarrow> Inl TypeError
                          | Some a \<Rightarrow>
                              let actorLevel = or_nat (level a) 0;
                                  facilityLevel = or_nat (doc_level item) 0
                              in if facilityLevel > actorLevel
                                 then Inr [Notify Warn ''BASTION_MANAGER.Warnings.LevelTooLow'']
                                 else Inr [CreateEmbeddedDocuments [item],
                                           Notify Info ''BASTION_MANAGER.Notifications.FacilityAdded'',
                                           Render]))))"

text \<open>
  The host's side of a mutation, on the actor the view shows: an embedded document is
  added to the actor's items, an update replaces the stored references of the occupant
  list at the path. Notifications and renders leave the actor as it is.
\<close>

definition set_value :: "occupant_data option \<Rightarrow> string list \<Rightarrow> occupant_data option" where
  "set_value od v =
     (case od of
        None \<Rightarrow> Some \<lparr>occ_value = Some v, occ_max = None\<rparr>
      | Some d \<Rightarrow> Some (d\<lparr>occ_value := Some v\<rparr>))"

definition update_document :: "string \<Rightarrow> string list \<Rightarrow> document \<Rightarrow> document" where
  "update_document path v d =
     (if path = ''system.defenders.value'' then d\<lparr>defenders := set_value (defenders d) v\<rparr>
      else if path = ''system.hirelings.value'' then d\<lparr>hirelings := set_value (hirelings d) v\<rparr>
      else if path = ''system.trade.creatures.value''
      then d\<lparr>creatures := set_value (creatures d) v\<rparr>
      else d)"

fun apply_effect :: "actor \<Rightarrow> effect \<Rightarrow> actor" where
  "apply_effect a (Notify sev key) = a"
| "apply_effect a (CreateEmbeddedDocuments docs) = a\<lparr>items := items a @ docs\<rparr>"
| "apply_effect a (UpdateValue facilityId path v) =
     a\<lparr>items := map (\<lambda>d. if doc_id d = facilityId then update_document path v d else d) (items a)\<rparr>"
| "apply_effect a Render = a"

fun is_mutation :: "effect \<Rightarrow> bool" where
  "is_mutation (CreateEmbeddedDocuments docs) = True"
| "is_mutation (UpdateValue facilityId path v) = True"
| "is_mutation (Notify sev key) = False"
| "is_mutation Render = False"

section \<open>Reading results and stating the specification\<close>

text \<open>The fields of one category of a computed facilities context.\<close>

definition result_max :: "facility_type \<Rightarrow> js_error + facilities_ctx \<Rightarrow> int option" where
  "result_max ty res = (case res of Inl e \<Rightarrow> None | Inr r \<Rightarrow> cat_max (get_category ty r))"

definition result_value :: "facility_type \<Rightarrow> js_error + facilities_ctx \<Rightarrow> nat option" where
  "result_value ty res = (case res of Inl e \<Rightarrow> None | Inr r \<Rightarrow> cat_value (get_category ty r))"

definition result_available :: "facility_type \<Rightarrow> js_error + facilities_ctx \<Rightarrow> string list option" where
  "result_available ty res = (case res of Inl e \<Rightarrow> None | Inr r \<Rightarrow> available (get_category ty r))"

text \<open>
  The specification's lookup: the value at the greatest key that is at most the level,
  and 0 when the table has no such key.
\<close>

definition greatest_key_le :: "level_table \<Rightarrow> nat \<Rightarrow> nat option" where
  "greatest_key_le t L =
     (if {k \<in> fst ` set t. k \<le> L} = {} then None else Some (Max {k \<in> fst ` set t. k \<le> L}))"

definition table_lookup :: "level_table \<Rightarrow> nat \<Rightarrow> int" where
  "table_lookup t L =
     (case greatest_key_le t L of
        None \<Rightarrow> 0
      | Some k \<Rightarrow> (case get_prop t k of None \<Rightarrow> 0 | Some v \<Rightarrow> v))"

definition table_of :: "facility_type \<Rightarrow> advancement \<Rightarrow> level_table" where
  "table_of ty adv = (case ty of Basic \<Rightarrow> adv_basic adv | Special \<Rightarrow> adv_special adv)"

text \<open>A category's override, 0 when none is stored.\<close>

definition override_of :: "facility_type \<Rightarrow> building_overrides \<Rightarrow> int" where
  "override_of ty ov = (case ty of Basic \<Rightarrow> or_int (ov_basic ov) 0 | Special \<Rightarrow> or_int (ov_special ov) 0)"

text \<open>
  The category a facility is shown in: \<open>special\<close> when its type says so, \<open>basic\<close>
  otherwise.
\<close>

definition in_category :: "facility_type \<Rightarrow> document \<Rightarrow> bool" where
  "in_category ty d =
     (case ty of Basic \<Rightarrow> type_value d \<noteq> Some ''special'' | Special \<Rightarrow> type_value d = Some ''special'')"

text \<open>
  A cumulative table: no slot count is negative, and a greater level key never has a
  smaller slot count.
\<close>

definition cumulative :: "level_table \<Rightarrow> bool" where
  "cumulative t =
     list_all (\<lambda>(k1, v1). 0 \<le> v1 \<and> list_all (\<lambda>(k2, v2). k2 < k1 \<or> v1 \<le> v2) (Object_entries t))
       (Object_entries t)"

text \<open>The capacity an occupant list declares, 0 when it declares none.\<close>

definition capacity :: "occupant_data option \<Rightarrow> nat" where
  "capacity od = or_nat (data_max od) 0"

text \<open>
  The reference stored at an index of an occupant list: the element there, when there
  is one and it is not the empty string.
\<close>

definition stored_ref :: "occupant_data option \<Rightarrow> nat \<Rightarrow> string option" where
  "stored_ref od i =
     (case data_value od of
        None \<Rightarrow> None
      | Some uuids \<Rightarrow>
          (case array_get uuids i of
             None \<Rightarrow> None
           | Some u \<Rightarrow> if u = [] then None else Some u))"

text \<open>\<open>CONST.DOCUMENT_OWNERSHIP_LEVELS.OWNER\<close>\<close>

definition OWNER :: nat where
  "OWNER = 3"

text \<open>
  The four grounds of the specification's visibility predicate, for the user asked
  about: a GM, an owner of the actor by the actor's stored ownership, a bastion marked
  public, a user the bastion is shared with.
\<close>

definition user_is_gm :: "game \<Rightarrow> string \<Rightarrow> bool" where
  "user_is_gm g userId = (case game_users g userId of None \<Rightarrow> False | Some u \<Rightarrow> isGM u)"

definition user_owns :: "game \<Rightarrow> string \<Rightarrow> string \<Rightarrow> bool" where
  "user_owns g actorId userId =
     (case game_actors g actorId of None \<Rightarrow> False | Some a \<Rightarrow> ownership a userId = Some OWNER)"

definition marked_public :: "game \<Rightarrow> string \<Rightarrow> bool" where
  "marked_public g actorId =
     (case or_empty (visibilitySettings g) actorId of None \<Rightarrow> False | Some v \<Rightarrow> truthy (public v))"

definition shared_with :: "game \<Rightarrow> string \<Rightarrow> string \<Rightarrow> bool" where
  "shared_with g actorId userId =
     (case or_empty (visibilitySettings g) actorId of
        None \<Rightarrow> False
      | Some v \<Rightarrow> (case users v of None \<Rightarrow> False | Some l \<Rightarrow> userId \<in> set l))"

definition may_view :: "game \<Rightarrow> string \<Rightarrow> string \<Rightarrow> bool" where
  "may_view g actorId userId =
     (user_is_gm g userId \<or> user_owns g actorId userId \<or> marked_public g actorId
      \<or> shared_with g actorId userId)"

text \<open>
  A facility drop that gets as far as resolving the dropped item: the user at the
  client owns the actor or is a GM, the payload is an item, and the drop target names a
  facility type.
\<close>

definition facility_drop_admitted :: "game \<Rightarrow> string \<Rightarrow> drag_data \<Rightarrow> string option \<Rightarrow> bool" where
  "facility_drop_admitted g actorId d facilityType =
     (((case game_actors g actorId of None \<Rightarrow> False | Some a \<Rightarrow> isOwner a)
       \<or> user_is_gm g (game_user g))
      \<and> drag_type d = ''Item'' \<and> \<not> falsy_str facilityType)"

text \<open>
  The effects of a handler are one notification of the given severity and message,
  none of them a mutation, and the host leaves the actor as it was.
\<close>

definition only_notifies :: "severity \<Rightarrow> string \<Rightarrow> actor \<Rightarrow> effect list \<Rightarrow> bool" where
  "only_notifies sev key a effects =
     (effects = [Notify sev key] \<and> filter is_mutation effects = []
      \<and> foldl apply_effect a effects = a)"

text \<open>The actor with another level, everything else as it was.\<close>

definition with_level :: "game \<Rightarrow> string \<Rightarrow> nat option \<Rightarrow> game" where
  "with_level g actorId lv =
     g\<lparr>game_actors :=
         (\<lambda>k. if k = actorId then map_option (\<lambda>a. a\<lparr>level := lv\<rparr>) (game_actors g k)
              else game_actors g k)\<rparr>"

section \<open>Sample worlds\<close>

definition sample_facility :: "string \<Rightarrow> string \<Rightarrow> bool \<Rightarrow> occupant_data option \<Rightarrow> document" where
  "sample_facility ident ty is_free ds =
     \<lparr>doc_id = ident, doc_uuid = ''Item.'' @ ident, doc_name = ident, doc_img = ''icons/svg/tower.svg'',
      doc_type = ''facility'', type_value = Some ty, doc_level = Some 5, free = is_free,
      building = False, disabled = False, defenders = ds, hirelings = None, creatures = None\<rparr>"

definition sample_guard :: document where
  "sample_guard =
     \<lparr>doc_id = ''guard'', doc_uuid = ''Actor.guard'', doc_name = ''Guard'', doc_img = ''icons/svg/mystery-man.svg'',
      doc_type = ''npc'', type_value = None, doc_level = None, free = False,
      building = False, disabled = False, defenders = None, hirelings = None, creatures = None\<rparr>"

text \<open>
  A world with the player \<open>u1\<close> at the client, owner of the actor \<open>a1\<close>, a second player
  \<open>u2\<close>, owner of the actor \<open>a2\<close>, and a GM. Two UUIDs resolve: the facility \<open>Item.smithy\<close>, of type
  \<open>special\<close> and level 5, and the actor \<open>Actor.guard\<close>.
\<close>

definition sample_actor :: "nat option \<Rightarrow> document list \<Rightarrow> actor" where
  "sample_actor lv its =
     \<lparr>actor_id = ''a1'', actor_name = ''Ayla'', isOwner = True,
      ownership = [''u1'' \<mapsto> OWNER], level = lv, items = its\<rparr>"

definition sample_actor2 :: actor where
  "sample_actor2 =
     \<lparr>actor_id = ''a2'', actor_name = ''Brom'', isOwner = False,
      ownership = [''u2'' \<mapsto> OWNER], level = Some 7, items = []\<rparr>"

definition sample_game ::
  "advancement \<Rightarrow> nat option \<Rightarrow> building_overrides option \<Rightarrow> document list \<Rightarrow> game" where
  "sample_game adv lv ov its =
     \<lparr>game_user = ''u1'',
      game_users = [''u1'' \<mapsto> \<lparr>isGM = False\<rparr>, ''u2'' \<mapsto> \<lparr>isGM = False\<rparr>,
                    ''gm'' \<mapsto> \<lparr>isGM = True\<rparr>],
      game_actors = [''a1'' \<mapsto> sample_actor lv its, ''a2'' \<mapsto> sample_actor2],
      buildingOverrides = map_option (\<lambda>x. [''a1'' \<mapsto> x]) ov,
      visibilitySettings = None,
      enabledBastions = None,
      facilities_advancement = adv,
      fromUuid = [''Item.smithy'' \<mapsto> sample_facility ''smithy'' ''special'' False None,
                  ''Actor.guard'' \<mapsto> sample_guard]\<rparr>"

text \<open>A special facility whose one defender slot is taken.\<close>

definition sample_barracks :: document where
  "sample_barracks =
     sample_facility ''barracks'' ''special'' False
       (Some \<lparr>occ_value = Some [''Actor.guard''], occ_max = Some 1\<rparr>)"

text \<open>The tables and the override of the specification's worked example.\<close>

definition spec_advancement :: advancement where
  "spec_advancement = \<lparr>adv_basic = [(1, 2), (5, 3)], adv_special = [(1, 0), (3, 1)]\<rparr>"

definition spec_overrides :: building_overrides where
  "spec_overrides = \<lparr>ov_basic = Some 1, ov_special = Some 0\<rparr>"

section \<open>Properties of the level tables\<close>

lemma own_keys_sorted: "sorted (own_keys t)"
  by (simp add: own_keys_def)

lemma own_keys_set: "set (own_keys t) = fst ` set t"
  by (simp add: own_keys_def)

lemma get_prop_None: "get_prop t k = None \<longleftrightarrow> k \<notin> fst ` set t"
  by (simp add: get_prop_def map_of_eq_None_iff)

lemma map_filter_total:
  "(\<And>k. k \<in> set ks \<Longrightarrow> f k \<noteq> None) \<Longrightarrow>
     List.map_filter (\<lambda>k. map_option (Pair k) (f k)) ks = map (\<lambda>k. (k, the (f k))) ks"
proof (induction ks)
  case Nil
  then show ?case by (simp add: List.map_filter_simps)
next
  case (Cons a ks)
  from Cons.prems [of a] obtain y where y: "f a = Some y" by auto
  have "List.map_filter (\<lambda>k. map_option (Pair k) (f k)) ks = map (\<lambda>k. (k, the (f k))) ks"
    by (rule Cons.IH) (simp add: Cons.prems)
  then show ?case by (simp add: List.map_filter_simps y)
qed

lemma Object_entries_map:
  "Object_entries t = map (\<lambda>k. (k, the (get_prop t k))) (own_keys t)"
  unfolding Object_entries_def
  by (rule map_filter_total) (simp add: get_prop_None own_keys_set)

lemma find_rev_sorted:
  "sorted xs \<Longrightarrow> List.find (\<lambda>k. k \<le> L) (rev xs) =
     (if {k \<in> set xs. k \<le> L} = {} then None else Some (Max {k \<in> set xs. k \<le> (L::nat)}))"
proof (induction xs rule: rev_induct)
  case Nil
  then show ?case by simp
next
  case (snoc x xs)
  have srt: "sorted xs" and le: "\<forall>y \<in> set xs. y \<le> x"
    using snoc.prems by (auto simp: sorted_append)
  show ?case
  proof (cases "x \<le> L")
    case True
    have "Max {k \<in> set (xs @ [x]). k \<le> L} = x"
    proof (rule Max_eqI)
      show "finite {k \<in> set (xs @ [x]). k \<le> L}" by simp
      show "\<And>y. y \<in> {k \<in> set (xs @ [x]). k \<le> L} \<Longrightarrow> y \<le> x" using le by auto
      show "x \<in> {k \<in> set (xs @ [x]). k \<le> L}" using True by simp
    qed
    moreover have "{k \<in> set (xs @ [x]). k \<le> L} \<noteq> {}" using True by auto
    ultimately show ?thesis using True by simp
  next
    case False
    have "{k \<in> set (xs @ [x]). k \<le> L} = {k \<in> set xs. k \<le> L}" using False by auto
    then show ?thesis using False snoc.IH [OF srt] by simp
  qed
qed

lemma find_map_pair:
  "List.find (\<lambda>(k, _). P k) (map (\<lambda>k. (k, f k)) ys) = map_option (\<lambda>k. (k, f k)) (List.find P ys)"
  by (induction ys) auto

lemma find_available_greatest:
  "find_available t L = (case greatest_key_le t L of None \<Rightarrow> None | Some k \<Rightarrow> get_prop t k)"
proof -
  have "List.find (\<lambda>(lvl, _). lvl \<le> L) (rev (Object_entries t))
        = map_option (\<lambda>k. (k, the (get_prop t k))) (List.find (\<lambda>k. k \<le> L) (rev (own_keys t)))"
    by (simp add: Object_entries_map rev_map find_map_pair)
  then have eq: "find_available t L = map_option (\<lambda>k. the (get_prop t k)) (List.find (\<lambda>k. k \<le> L) (rev (own_keys t)))"
    by (simp add: find_available_def option.map_comp comp_def)
  show ?thesis
  proof (cases "{k \<in> fst ` set t. k \<le> L} = {}")
    case True
    then show ?thesis
      by (simp add: eq find_rev_sorted [OF own_keys_sorted] own_keys_set greatest_key_le_def)
  next
    case False
    let ?m = "Max {k \<in> fst ` set t. k \<le> L}"
    have "?m \<in> {k \<in> fst ` set t. k \<le> L}"
      by (rule Max_in) (use False in auto)
    then have "get_prop t ?m \<noteq> None" by (simp add: get_prop_None)
    then show ?thesis using False
      by (auto simp add: eq find_rev_sorted [OF own_keys_sorted] own_keys_set greatest_key_le_def)
  qed
qed

lemma or_int_id: "or_int x 0 = (case x of None \<Rightarrow> 0 | Some v \<Rightarrow> v)"
  by (cases x) auto

lemma find_available_lookup: "or_int (find_available t L) 0 = table_lookup t L"
  by (simp add: or_int_id find_available_greatest table_lookup_def split: option.splits)


lemma chosen_choose_facilities:
  "chosen (basic (choose_facilities g ds f)) =
     chosen (basic f) @
       map (prepareFacilityContext g) (filter (\<lambda>d. type_value d \<noteq> Some ''special'') ds)"
  "chosen (special (choose_facilities g ds f)) =
     chosen (special f) @
       map (prepareFacilityContext g) (filter (\<lambda>d. type_value d = Some ''special'') ds)"
  by (induction ds arbitrary: f) (simp_all add: Let_def prepareFacilityContext_def)

lemma fold_slot_step:
  "fold (slot_step lv ov) (advancement_entries adv) f =
     \<lparr>basic = (basic f)
        \<lparr>cat_value := Some (length (chosen (basic f))),
         cat_max := Some (table_lookup (adv_basic adv) lv + or_int (ov_basic ov) 0),
         cat_override := Some (or_int (ov_basic ov) 0),
         available := Some (replicate
            (nat (max 0 (table_lookup (adv_basic adv) lv + or_int (ov_basic ov) 0
                          - int (length (chosen (basic f))))))
            (free_label Basic))\<rparr>,
      special = (special f)
        \<lparr>cat_value := Some (length (filter (\<lambda>c. \<not> ctx_free c) (chosen (special f)))),
         cat_max := Some (table_lookup (adv_special adv) lv + or_int (ov_special ov) 0),
         cat_override := Some (or_int (ov_special ov) 0),
         available := Some (replicate
            (nat (max 0 (table_lookup (adv_special adv) lv + or_int (ov_special ov) 0
                          - int (length (filter (\<lambda>c. \<not> ctx_free c) (chosen (special f)))))))
            (free_label Special))\<rparr>\<rparr>"
  by (simp add: advancement_entries_def slot_step_def Let_def get_category_def
      set_category_def find_available_lookup)


lemma ctx_free_prepare: "ctx_free (prepareFacilityContext g d) = free d"
  by (simp add: prepareFacilityContext_def Let_def)

lemma prepareFacilitiesContext_fields:
  assumes a: "game_actors g actorId = Some a"
  defines "lv \<equiv> or_nat (level a) 1"
    and "ov \<equiv> getBuildingOverrides g actorId"
    and "adv \<equiv> facilities_advancement g"
  defines "nb \<equiv> length (filter (\<lambda>d. type_value d \<noteq> Some ''special'') (facility_items a))"
    and "ns \<equiv> length (filter (\<lambda>d. \<not> free d)
                  (filter (\<lambda>d. type_value d = Some ''special'') (facility_items a)))"
    and "tb \<equiv> table_lookup (adv_basic adv) lv + or_int (ov_basic ov) 0"
    and "ts \<equiv> table_lookup (adv_special adv) lv + or_int (ov_special ov) 0"
  shows "\<exists>r. prepareFacilitiesContext g actorId = Inr r
           \<and> cat_value (basic r) = Some nb \<and> cat_max (basic r) = Some tb
           \<and> cat_override (basic r) = Some (or_int (ov_basic ov) 0)
           \<and> available (basic r) =
                Some (if nat (max 0 (tb - int nb)) = 0 then [build_label]
                      else replicate (nat (max 0 (tb - int nb))) (free_label Basic))
           \<and> cat_value (special r) = Some ns \<and> cat_max (special r) = Some ts
           \<and> cat_override (special r) = Some (or_int (ov_special ov) 0)
           \<and> available (special r) = Some (replicate (nat (max 0 (ts - int ns))) (free_label Special))"
  unfolding prepareFacilitiesContext_def lv_def ov_def adv_def nb_def ns_def tb_def ts_def
  by (simp add: a Let_def fold_slot_step chosen_choose_facilities ctx_free_prepare filter_map comp_def)


lemma result_max_fields:
  assumes "game_actors g actorId = Some a"
  shows "result_max ty (prepareFacilitiesContext g actorId) =
           Some (table_lookup (table_of ty (facilities_advancement g)) (or_nat (level a) 1)
                 + override_of ty (getBuildingOverrides g actorId))"
  using prepareFacilitiesContext_fields [OF assms]
  by (cases ty) (auto simp: result_max_def get_category_def table_of_def override_of_def)

lemma building_limits_eq:
  "building_limits g a =
     (table_lookup (adv_basic (facilities_advancement g)) (or_nat (level a) 1)
        + or_int (ov_basic (getBuildingOverrides g (actor_id a))) 0,
      table_lookup (adv_special (facilities_advancement g)) (or_nat (level a) 1)
        + or_int (ov_special (getBuildingOverrides g (actor_id a))) 0)"
  by (simp add: building_limits_def Let_def advancement_entries_def limits_step_def
      find_available_lookup)

section \<open>Properties of the facilities context\<close>

lemma nat_max0: "nat (max 0 x) = nat x"
  by (simp add: max_def)

lemma available_lengths:
  assumes a: "game_actors g actorId = Some a"
  defines "lv \<equiv> or_nat (level a) 1"
    and "ov \<equiv> getBuildingOverrides g actorId"
    and "adv \<equiv> facilities_advancement g"
  defines "nb \<equiv> length (filter (\<lambda>d. type_value d \<noteq> Some ''special'') (facility_items a))"
    and "ns \<equiv> length (filter (\<lambda>d. \<not> free d)
                  (filter (\<lambda>d. type_value d = Some ''special'') (facility_items a)))"
    and "tb \<equiv> table_lookup (adv_basic adv) lv + or_int (ov_basic ov) 0"
    and "ts \<equiv> table_lookup (adv_special adv) lv + or_int (ov_special ov) 0"
  shows "\<exists>avb avs.
           result_available Basic (prepareFacilitiesContext g actorId) = Some avb
         \<and> length avb = (if nat (tb - int nb) = 0 then 1 else nat (tb - int nb))
         \<and> result_available Special (prepareFacilitiesContext g actorId) = Some avs
         \<and> length avs = nat (ts - int ns)"
proof -
  from prepareFacilitiesContext_fields [OF a] obtain r where
    r: "prepareFacilitiesContext g actorId = Inr r"
    and b: "available (basic r) =
                Some (if nat (max 0 (tb - int nb)) = 0 then [build_label]
                      else replicate (nat (max 0 (tb - int nb))) (free_label Basic))"
    and s: "available (special r) = Some (replicate (nat (max 0 (ts - int ns))) (free_label Special))"
    unfolding lv_def ov_def adv_def nb_def ns_def tb_def ts_def by blast
  have "result_available Basic (prepareFacilitiesContext g actorId) =
          Some (if nat (tb - int nb) = 0 then [build_label]
                else replicate (nat (tb - int nb)) (free_label Basic))"
    using b by (simp only: r result_available_def get_category_def nat_max0 sum.case facility_type.case)
  moreover have "result_available Special (prepareFacilitiesContext g actorId) =
          Some (replicate (nat (ts - int ns)) (free_label Special))"
    using s by (simp only: r result_available_def get_category_def nat_max0 sum.case facility_type.case)
  ultimately show ?thesis by simp
qed

lemma in_category_simps:
  "in_category Basic = (\<lambda>d. type_value d \<noteq> Some ''special'')"
  "in_category Special = (\<lambda>d. type_value d = Some ''special'')"
  by (rule ext, simp add: in_category_def)+

lemma result_value_fields:
  assumes a: "game_actors g actorId = Some a"
  shows "result_value Basic (prepareFacilitiesContext g actorId)
           = Some (length (filter (in_category Basic) (facility_items a)))"
    and "result_value Special (prepareFacilitiesContext g actorId)
           = Some (length (filter (\<lambda>d. in_category Special d \<and> \<not> free d) (facility_items a)))"
proof -
  from prepareFacilitiesContext_fields [OF a] obtain r where
    r: "prepareFacilitiesContext g actorId = Inr r"
    and b: "cat_value (basic r) =
              Some (length (filter (\<lambda>d. type_value d \<noteq> Some ''special'') (facility_items a)))"
    and s: "cat_value (special r) =
              Some (length (filter (\<lambda>d. \<not> free d)
                  (filter (\<lambda>d. type_value d = Some ''special'') (facility_items a))))"
    by blast
  show "result_value Basic (prepareFacilitiesContext g actorId)
           = Some (length (filter (in_category Basic) (facility_items a)))"
    by (simp add: r b result_value_def get_category_def in_category_simps)
  show "result_value Special (prepareFacilitiesContext g actorId)
           = Some (length (filter (\<lambda>d. in_category Special d \<and> \<not> free d) (facility_items a)))"
    by (simp add: r s result_value_def get_category_def in_category_simps conj_commute)
qed

section \<open>Monotonicity of the lookup\<close>

lemma entries_iff: "(k, v) \<in> set (Object_entries t) \<longleftrightarrow> get_prop t k = Some v"
proof
  assume "(k, v) \<in> set (Object_entries t)"
  then have k: "k \<in> fst ` set t" and v: "v = the (get_prop t k)"
    by (auto simp: Object_entries_map own_keys_set)
  from k have "get_prop t k \<noteq> None" by (simp add: get_prop_None)
  with v show "get_prop t k = Some v" by auto
next
  assume g: "get_prop t k = Some v"
  then have "k \<in> fst ` set t" using get_prop_None [of t k] by auto
  then have "k \<in> set (own_keys t)" by (simp add: own_keys_set)
  then have "(k, the (get_prop t k)) \<in> set (Object_entries t)"
    by (simp add: Object_entries_map)
  with g show "(k, v) \<in> set (Object_entries t)" by simp
qed

lemma cumulative_iff:
  "cumulative t \<longleftrightarrow>
     (\<forall>k1 v1. get_prop t k1 = Some v1 \<longrightarrow>
        0 \<le> v1 \<and> (\<forall>k2 v2. get_prop t k2 = Some v2 \<longrightarrow> k2 < k1 \<or> v1 \<le> v2))"
  by (simp add: cumulative_def list_all_iff entries_iff [symmetric] split_beta) force

lemma greatest_key_le_Some:
  assumes "greatest_key_le t L = Some k"
  shows "k \<in> fst ` set t" "k \<le> L" "\<And>j. j \<in> fst ` set t \<Longrightarrow> j \<le> L \<Longrightarrow> j \<le> k"
proof -
  let ?S = "{k \<in> fst ` set t. k \<le> L}"
  from assms have ne: "?S \<noteq> {}" and k: "k = Max ?S"
    by (auto simp: greatest_key_le_def split: if_splits)
  have fin: "finite ?S" by simp
  from Max_in [OF fin ne] k show "k \<in> fst ` set t" "k \<le> L" by auto
  fix j assume "j \<in> fst ` set t" "j \<le> L"
  then have "j \<in> ?S" by simp
  from Max_ge [OF fin this] k show "j \<le> k" by simp
qed

lemma greatest_key_le_None:
  assumes "greatest_key_le t L = None" "j \<in> fst ` set t"
  shows "L < j"
  using assms by (auto simp: greatest_key_le_def split: if_splits)

lemma table_lookup_mono:
  assumes c: "cumulative t" and le: "L1 \<le> L2"
  shows "table_lookup t L1 \<le> table_lookup t L2"
proof (cases "greatest_key_le t L1")
  case None
  show ?thesis
  proof (cases "greatest_key_le t L2")
    case n2: None
    with None show ?thesis by (simp add: table_lookup_def)
  next
    case (Some k2)
    show ?thesis
    proof (cases "get_prop t k2")
      case n: None
      with None Some show ?thesis by (simp add: table_lookup_def)
    next
      case (Some v2)
      with c have "0 \<le> v2" by (auto simp: cumulative_iff)
      with None \<open>greatest_key_le t L2 = Some k2\<close> Some show ?thesis
        by (simp add: table_lookup_def)
    qed
  qed
next
  case (Some k1)
  note k1 = greatest_key_le_Some [OF Some]
  from k1(1) obtain v1 where v1: "get_prop t k1 = Some v1"
    using get_prop_None [of t k1] by auto
  have "greatest_key_le t L2 \<noteq> None"
    using greatest_key_le_None [of t L2 k1] k1 le by auto
  then obtain k2 where g2: "greatest_key_le t L2 = Some k2" by auto
  note k2 = greatest_key_le_Some [OF g2]
  from k2(1) obtain v2 where v2: "get_prop t k2 = Some v2"
    using get_prop_None [of t k2] by auto
  have "k1 \<le> k2" using k2(3) [OF k1(1)] k1(2) le by simp
  with c v1 v2 have "v1 \<le> v2" by (fastforce simp: cumulative_iff)
  then show ?thesis by (simp add: table_lookup_def Some g2 v1 v2)
qed

lemma or_nat_mono: "L1 \<le> L2 \<Longrightarrow> or_nat (Some L1) 1 \<le> or_nat (Some L2) 1"
  by (cases "L1 = 0") auto

lemma with_level_fields:
  assumes "game_actors g actorId = Some a"
  shows "game_actors (with_level g actorId lv) actorId = Some (a\<lparr>level := lv\<rparr>)"
    and "facilities_advancement (with_level g actorId lv) = facilities_advancement g"
    and "getBuildingOverrides (with_level g actorId lv) actorId = getBuildingOverrides g actorId"
  using assms by (simp_all add: with_level_def getBuildingOverrides_def)

section \<open>Properties of the occupant slots\<close>

declare occupants_loop.simps [simp del]

lemma occupants_loop_map:
  "occupants_loop resolve uuids mx i occupants =
     occupants @ map (make_slot resolve uuids) [i..<mx]"
proof (induction resolve uuids mx i occupants rule: occupants_loop.induct)
  case (1 resolve uuids mx i occupants)
  show ?case
  proof (cases "i < mx")
    case True
    then show ?thesis
      using "1.IH" by (subst occupants_loop.simps) (simp add: upt_conv_Cons)
  next
    case False
    then show ?thesis
      by (subst occupants_loop.simps) simp
  qed
qed

lemma prepareOccupants_map:
  "prepareOccupants resolve od =
     map (make_slot resolve (case data_value od of None \<Rightarrow> [] | Some v \<Rightarrow> v)) [0..<capacity od]"
  by (cases "data_max od")
     (auto simp: prepareOccupants_def capacity_def falsy_nat_def occupants_loop_map Let_def)

lemma make_slot_empty:
  "slot_empty (make_slot resolve (case data_value od of None \<Rightarrow> [] | Some v \<Rightarrow> v) i) =
     (case stored_ref od i of None \<Rightarrow> True | Some u \<Rightarrow> resolve u = None)"
  by (auto simp: make_slot_def stored_ref_def array_get_def split: option.splits)

lemma make_slot_index: "slot_index (make_slot resolve uuids i) = i"
  by (auto simp: make_slot_def split: option.splits)

section \<open>Properties of the manager and the drop handlers\<close>

lemma canViewBastion_true_iff:
  "canViewBastion g actorId userId = JBool True \<longleftrightarrow>
     user_is_gm g userId
     \<or> (case game_actors g actorId of None \<Rightarrow> False | Some a \<Rightarrow> isOwner a)
     \<or> (case or_empty (visibilitySettings g) actorId of
           None \<Rightarrow> False
         | Some v \<Rightarrow> public v = JBool True
                    \<or> (\<not> truthy (public v) \<and> (case users v of None \<Rightarrow> False | Some l \<Rightarrow> userId \<in> set l)))"
  by (auto simp: canViewBastion_def user_is_gm_def js_or_def users_includes_def
      split: option.splits)

lemma only_notifies_single: "only_notifies sev key a [Notify sev key]"
  by (simp add: only_notifies_def)

lemma admittedD:
  assumes "facility_drop_admitted g actorId d facilityType"
  shows "\<not> (\<not> (case game_actors g actorId of None \<Rightarrow> False | Some a \<Rightarrow> isOwner a)
            \<and> \<not> (case game_users g (game_user g) of None \<Rightarrow> False | Some u \<Rightarrow> isGM u))"
    and "drag_type d = ''Item''" and "\<not> falsy_str facilityType"
  using assms by (auto simp: facility_drop_admitted_def user_is_gm_def)

lemma onDropFacility_missing:
  assumes "facility_drop_admitted g actorId d facilityType" "fromUuid g (drag_uuid d) = None"
  shows "onDropFacility g actorId (Some d) facilityType =
           Inr [Notify Error ''BASTION_MANAGER.Warnings.ItemNotFound'']"
  using admittedD [OF assms(1)] assms(2) by (simp add: onDropFacility_def Let_def)

lemma onDropFacility_mismatch:
  assumes "facility_drop_admitted g actorId d facilityType" "fromUuid g (drag_uuid d) = Some item"
    "doc_type item = ''facility''" "type_value item \<noteq> facilityType"
  shows "onDropFacility g actorId (Some d) facilityType =
           Inr [Notify Warn ''BASTION_MANAGER.Warnings.WrongFacilityType'']"
  using admittedD [OF assms(1)] assms(2-) by (simp add: onDropFacility_def Let_def)

lemma onDropFacility_level:
  assumes "facility_drop_admitted g actorId d facilityType" "fromUuid g (drag_uuid d) = Some item"
    "doc_type item = ''facility''" "type_value item = facilityType"
    "game_actors g actorId = Some a" "or_nat (level a) 0 < or_nat (doc_level item) 0"
  shows "onDropFacility g actorId (Some d) facilityType =
           Inr [Notify Warn ''BASTION_MANAGER.Warnings.LevelTooLow'']"
  using admittedD [OF assms(1)] assms(2-) by (simp add: onDropFacility_def Let_def)

lemma onDropActor_full:
  assumes "drag_type d = ''Actor''" "fid \<noteq> []" "p \<noteq> []"
    "items_get (game_actors g actorId) fid = Some facility"
    "or_nat (data_max (getProperty facility p)) 0
       \<le> or_nat (map_option length (data_value (getProperty facility p))) 0"
  shows "onDropActor g actorId (Some d) (Some fid) (Some p) =
           [Notify Warn ''BASTION_MANAGER.Warnings.SlotFull'']"
  using assms by (simp add: onDropActor_def Let_def)

section \<open>Slot maxima\<close>

text \<open>
  Claim C1, as the code has it. For an actor of the world and either category, the
  computed \<open>max\<close> is the table value at the greatest level key that is at most the
  effective level, 0 when the table has no such key, plus the category's override. The
  effective level is the actor's level, and 1 when that level is missing or 0
  (\<open>actor.system.details?.level || 1\<close>). The overview's \<open>basicMax\<close> and \<open>specialMax\<close>
  are the same two sums.
\<close>

theorem max_is_lookup_plus_override:
  assumes "game_actors g actorId = Some a"
  shows "result_max ty (prepareFacilitiesContext g actorId) =
           Some (table_lookup (table_of ty (facilities_advancement g)) (or_nat (level a) 1)
                 + override_of ty (getBuildingOverrides g actorId))
         \<and> building_limits g a =
           (table_lookup (table_of Basic (facilities_advancement g)) (or_nat (level a) 1)
              + override_of Basic (getBuildingOverrides g (actor_id a)),
            table_lookup (table_of Special (facilities_advancement g)) (or_nat (level a) 1)
              + override_of Special (getBuildingOverrides g (actor_id a)))"
  using result_max_fields [OF assms]
  by (simp add: building_limits_eq table_of_def override_of_def)

text \<open>
  The theorem at the specification's worked example: level 4, the tables
  \<open>{1: 2, 5: 3}\<close> and \<open>{1: 0, 3: 1}\<close>, the overrides 1 and 0.
\<close>

theorem max_is_lookup_plus_override_witness:
  "game_actors (sample_game spec_advancement (Some 4) (Some spec_overrides) []) ''a1''
     = Some (sample_actor (Some 4) [])
   \<and> result_max Special
       (prepareFacilitiesContext (sample_game spec_advancement (Some 4) (Some spec_overrides) []) ''a1'')
     = Some 1
   \<and> building_limits (sample_game spec_advancement (Some 4) (Some spec_overrides) [])
        (sample_actor (Some 4) []) = (3, 1)"
proof -
  let ?g = "sample_game spec_advancement (Some 4) (Some spec_overrides) []"
  let ?a = "sample_actor (Some 4) []"
  have h: "game_actors ?g ''a1'' = Some ?a"
    by (simp add: sample_game_def)
  have s: "table_lookup (table_of Special (facilities_advancement ?g)) (or_nat (level ?a) 1)
             + override_of Special (getBuildingOverrides ?g ''a1'') = 1"
    by code_simp
  have b: "table_lookup (table_of Basic (facilities_advancement ?g)) (or_nat (level ?a) 1)
             + override_of Basic (getBuildingOverrides ?g (actor_id ?a)) = 3"
    by code_simp
  have s': "table_lookup (table_of Special (facilities_advancement ?g)) (or_nat (level ?a) 1)
             + override_of Special (getBuildingOverrides ?g (actor_id ?a)) = 1"
    by code_simp
  show ?thesis
    using h max_is_lookup_plus_override [OF h, of Special] s b s' by simp
qed

text \<open>
  Claim C1 as it is written reads the table at the actor's level itself. An actor of
  level 0 with the table \<open>{1: 2}\<close> and no override has no key at or below its level,
  so the claim gives 0; the code reads the table at level 1 and gives 2.
\<close>

theorem max_at_level_zero_counterexample:
  "level (sample_actor (Some 0) []) = Some 0
   \<and> result_max Basic
       (prepareFacilitiesContext
          (sample_game \<lparr>adv_basic = [(1, 2)], adv_special = []\<rparr> (Some 0) None []) ''a1'')
       = Some 2
   \<and> table_lookup [(1, 2)] 0
       + override_of Basic
           (getBuildingOverrides
              (sample_game \<lparr>adv_basic = [(1, 2)], adv_special = []\<rparr> (Some 0) None []) ''a1'')
       = 0"
  by code_simp

text \<open>
  Claim C7, as the code has it. With the tables \<open>{basic: {1: 2, 5: 3}, special: {1: 0, 3: 1}}\<close>,
  level 4 and the overrides \<open>{basic: 1, special: 0}\<close>, the basic maximum is 3 and the
  special maximum is 1: the greatest special key at or below 4 is 3, whose value is 1.
  The overview computes the same pair.
\<close>

theorem spec_example_maxima:
  "result_max Basic
     (prepareFacilitiesContext (sample_game spec_advancement (Some 4) (Some spec_overrides) []) ''a1'')
     = Some 3
   \<and> result_max Special
     (prepareFacilitiesContext (sample_game spec_advancement (Some 4) (Some spec_overrides) []) ''a1'')
     = Some 1
   \<and> building_limits (sample_game spec_advancement (Some 4) (Some spec_overrides) [])
        (sample_actor (Some 4) []) = (3, 1)"
  by code_simp

text \<open>Claim C7 as it is written gives 0 for the special maximum; the code does not.\<close>

theorem spec_example_special_max_counterexample:
  "result_max Special
     (prepareFacilitiesContext (sample_game spec_advancement (Some 4) (Some spec_overrides) []) ''a1'')
     \<noteq> Some 0"
  by code_simp

section \<open>Available slots and counts\<close>

text \<open>
  Claim C4. For an actor of the world, whatever its level, the tables and the override,
  the \<open>available\<close> array of the basic category has at least one entry, and exactly
  one when \<open>max - value \<le> 0\<close>; so with \<open>max = 0\<close> and \<open>value = 0\<close> it has exactly
  one.
\<close>

theorem basic_always_has_a_slot:
  assumes "game_actors g actorId = Some a"
  shows "\<exists>av m v.
           result_available Basic (prepareFacilitiesContext g actorId) = Some av
         \<and> result_max Basic (prepareFacilitiesContext g actorId) = Some m
         \<and> result_value Basic (prepareFacilitiesContext g actorId) = Some v
         \<and> 1 \<le> length av
         \<and> (m - int v \<le> 0 \<longrightarrow> length av = 1)"
proof -
  let ?nb = "length (filter (\<lambda>d. type_value d \<noteq> Some ''special'') (facility_items a))"
  let ?tb = "table_lookup (adv_basic (facilities_advancement g)) (or_nat (level a) 1)
               + or_int (ov_basic (getBuildingOverrides g actorId)) 0"
  from available_lengths [OF assms] obtain av where
    av: "result_available Basic (prepareFacilitiesContext g actorId) = Some av"
    and len: "length av = (if nat (?tb - int ?nb) = 0 then 1 else nat (?tb - int ?nb))"
    by blast
  have m: "result_max Basic (prepareFacilitiesContext g actorId) = Some ?tb"
    using result_max_fields [OF assms, of Basic] by (simp add: table_of_def override_of_def)
  have v: "result_value Basic (prepareFacilitiesContext g actorId) = Some ?nb"
    using result_value_fields(1) [OF assms] by (simp add: in_category_simps)
  have "1 \<le> length av" using len by (simp split: if_splits)
  moreover have "?tb - int ?nb \<le> 0 \<longrightarrow> length av = 1" using len by simp
  ultimately show ?thesis using av m v by blast
qed

text \<open>The theorem in a world with empty tables and an actor without facilities.\<close>

theorem basic_always_has_a_slot_witness:
  "game_actors (sample_game \<lparr>adv_basic = [], adv_special = []\<rparr> (Some 3) None []) ''a1'' = Some (sample_actor (Some 3) [])
   \<and> result_max Basic (prepareFacilitiesContext (sample_game \<lparr>adv_basic = [], adv_special = []\<rparr> (Some 3) None []) ''a1'') = Some 0
   \<and> result_value Basic (prepareFacilitiesContext (sample_game \<lparr>adv_basic = [], adv_special = []\<rparr> (Some 3) None []) ''a1'') = Some 0
   \<and> map_option length (result_available Basic (prepareFacilitiesContext (sample_game \<lparr>adv_basic = [], adv_special = []\<rparr> (Some 3) None []) ''a1'')) = Some 1"
proof -
  have h: "game_actors (sample_game \<lparr>adv_basic = [], adv_special = []\<rparr> (Some 3) None []) ''a1'' = Some (sample_actor (Some 3) [])"
    by (simp add: sample_game_def)
  have m: "result_max Basic (prepareFacilitiesContext (sample_game \<lparr>adv_basic = [], adv_special = []\<rparr> (Some 3) None []) ''a1'') = Some 0"
    by code_simp
  have v: "result_value Basic (prepareFacilitiesContext (sample_game \<lparr>adv_basic = [], adv_special = []\<rparr> (Some 3) None []) ''a1'') = Some 0"
    by code_simp
  from basic_always_has_a_slot [OF h] obtain av m' v' where
    av: "result_available Basic (prepareFacilitiesContext (sample_game \<lparr>adv_basic = [], adv_special = []\<rparr> (Some 3) None []) ''a1'') = Some av"
    and m': "result_max Basic (prepareFacilitiesContext (sample_game \<lparr>adv_basic = [], adv_special = []\<rparr> (Some 3) None []) ''a1'') = Some m'"
    and v': "result_value Basic (prepareFacilitiesContext (sample_game \<lparr>adv_basic = [], adv_special = []\<rparr> (Some 3) None []) ''a1'') = Some v'"
    and one: "m' - int v' \<le> 0 \<longrightarrow> length av = 1"
    by blast
  from m m' v v' one have "length av = 1" by simp
  with h m v av show ?thesis by simp
qed

text \<open>
  Claim C5. The \<open>value\<close> of the basic category counts every facility shown as basic,
  the free ones included; the \<open>value\<close> of the special category counts the special
  facilities that are not free.
\<close>

theorem value_counts_by_category:
  assumes "game_actors g actorId = Some a"
  shows "result_value Basic (prepareFacilitiesContext g actorId)
           = Some (length (filter (in_category Basic) (facility_items a)))
         \<and> result_value Special (prepareFacilitiesContext g actorId)
           = Some (length (filter (\<lambda>d. in_category Special d \<and> \<not> free d) (facility_items a)))"
  using result_value_fields [OF assms] by simp

text \<open>
  The theorem for an actor with a free and a paid facility of each category: both basic
  ones count, one special one does.
\<close>

theorem value_counts_by_category_witness:
  "game_actors (sample_game spec_advancement (Some 4) None
        [sample_facility ''hall'' ''basic'' True None, sample_facility ''yard'' ''basic'' False None,
         sample_facility ''vault'' ''special'' True None, sample_facility ''forge'' ''special'' False None]) ''a1'' = Some (sample_actor (Some 4)
        [sample_facility ''hall'' ''basic'' True None, sample_facility ''yard'' ''basic'' False None,
         sample_facility ''vault'' ''special'' True None, sample_facility ''forge'' ''special'' False None])
   \<and> result_value Basic (prepareFacilitiesContext (sample_game spec_advancement (Some 4) None
        [sample_facility ''hall'' ''basic'' True None, sample_facility ''yard'' ''basic'' False None,
         sample_facility ''vault'' ''special'' True None, sample_facility ''forge'' ''special'' False None]) ''a1'') = Some 2
   \<and> result_value Special (prepareFacilitiesContext (sample_game spec_advancement (Some 4) None
        [sample_facility ''hall'' ''basic'' True None, sample_facility ''yard'' ''basic'' False None,
         sample_facility ''vault'' ''special'' True None, sample_facility ''forge'' ''special'' False None]) ''a1'') = Some 1"
proof -
  have h: "game_actors (sample_game spec_advancement (Some 4) None
        [sample_facility ''hall'' ''basic'' True None, sample_facility ''yard'' ''basic'' False None,
         sample_facility ''vault'' ''special'' True None, sample_facility ''forge'' ''special'' False None]) ''a1'' = Some (sample_actor (Some 4)
        [sample_facility ''hall'' ''basic'' True None, sample_facility ''yard'' ''basic'' False None,
         sample_facility ''vault'' ''special'' True None, sample_facility ''forge'' ''special'' False None])"
    by (simp add: sample_game_def)
  have b: "length (filter (in_category Basic) (facility_items (sample_actor (Some 4)
        [sample_facility ''hall'' ''basic'' True None, sample_facility ''yard'' ''basic'' False None,
         sample_facility ''vault'' ''special'' True None, sample_facility ''forge'' ''special'' False None]))) = 2"
    by code_simp
  have s: "length (filter (\<lambda>d. in_category Special d \<and> \<not> free d) (facility_items (sample_actor (Some 4)
        [sample_facility ''hall'' ''basic'' True None, sample_facility ''yard'' ''basic'' False None,
         sample_facility ''vault'' ''special'' True None, sample_facility ''forge'' ''special'' False None]))) = 1"
    by code_simp
  show ?thesis
    using h value_counts_by_category [OF h] b s by simp
qed

section \<open>Monotonicity in the level\<close>

text \<open>
  Claim C6, as the code has it. When the category's table is cumulative (no negative
  slot count, and no smaller slot count at a greater level key), raising the actor's
  level from \<open>L1\<close> to \<open>L2 \<ge> L1\<close>, everything else unchanged, lowers neither \<open>max\<close>
  nor the number of \<open>available\<close> entries.
\<close>

theorem max_monotone_in_level:
  assumes a: "game_actors g actorId = Some a"
    and l1: "level a = Some L1"
    and le: "L1 \<le> L2"
    and c: "cumulative (table_of ty (facilities_advancement g))"
  shows "\<exists>m1 m2 av1 av2.
           result_max ty (prepareFacilitiesContext g actorId) = Some m1
         \<and> result_max ty (prepareFacilitiesContext (with_level g actorId (Some L2)) actorId) = Some m2
         \<and> m1 \<le> m2
         \<and> result_available ty (prepareFacilitiesContext g actorId) = Some av1
         \<and> result_available ty (prepareFacilitiesContext (with_level g actorId (Some L2)) actorId) = Some av2
         \<and> length av1 \<le> length av2"
proof -
  let ?g' = "with_level g actorId (Some L2)"
  let ?a' = "a\<lparr>level := Some L2\<rparr>"
  note w = with_level_fields [OF a, of "Some L2"]
  have lk: "table_lookup (table_of ty (facilities_advancement g)) (or_nat (level a) 1)
            \<le> table_lookup (table_of ty (facilities_advancement g)) (or_nat (level ?a') 1)"
    using table_lookup_mono [OF c or_nat_mono [OF le]] by (simp add: l1)
  have m1: "result_max ty (prepareFacilitiesContext g actorId) =
           Some (table_lookup (table_of ty (facilities_advancement g)) (or_nat (level a) 1)
                 + override_of ty (getBuildingOverrides g actorId))"
    by (rule result_max_fields [OF a])
  have m2: "result_max ty (prepareFacilitiesContext ?g' actorId) =
           Some (table_lookup (table_of ty (facilities_advancement g)) (or_nat (level ?a') 1)
                 + override_of ty (getBuildingOverrides g actorId))"
    using result_max_fields [OF w(1), of ty] by (simp only: w)
  have items: "facility_items ?a' = facility_items a" by (simp add: facility_items_def)
  from available_lengths [OF a] obtain avb avs where
    b1: "result_available Basic (prepareFacilitiesContext g actorId) = Some avb"
    "length avb = (if nat (table_lookup (adv_basic (facilities_advancement g)) (or_nat (level a) 1) + or_int (ov_basic (getBuildingOverrides g actorId)) 0 - int (length (filter (\<lambda>d. type_value d \<noteq> Some ''special'') (facility_items a)))) = 0 then 1 else nat (table_lookup (adv_basic (facilities_advancement g)) (or_nat (level a) 1) + or_int (ov_basic (getBuildingOverrides g actorId)) 0 - int (length (filter (\<lambda>d. type_value d \<noteq> Some ''special'') (facility_items a)))))"
    and s1: "result_available Special (prepareFacilitiesContext g actorId) = Some avs"
    "length avs = nat (table_lookup (adv_special (facilities_advancement g)) (or_nat (level a) 1) + or_int (ov_special (getBuildingOverrides g actorId)) 0 - int (length (filter (\<lambda>d. \<not> free d) (filter (\<lambda>d. type_value d = Some ''special'') (facility_items a)))))"
    by blast
  from available_lengths [OF w(1)] obtain avb' avs' where
    b2: "result_available Basic (prepareFacilitiesContext ?g' actorId) = Some avb'"
    "length avb' = (if nat (table_lookup (adv_basic (facilities_advancement g)) (or_nat (level ?a') 1) + or_int (ov_basic (getBuildingOverrides g actorId)) 0 - int (length (filter (\<lambda>d. type_value d \<noteq> Some ''special'') (facility_items a)))) = 0 then 1 else nat (table_lookup (adv_basic (facilities_advancement g)) (or_nat (level ?a') 1) + or_int (ov_basic (getBuildingOverrides g actorId)) 0 - int (length (filter (\<lambda>d. type_value d \<noteq> Some ''special'') (facility_items a)))))"
    and s2: "result_available Special (prepareFacilitiesContext ?g' actorId) = Some avs'"
    "length avs' = nat (table_lookup (adv_special (facilities_advancement g)) (or_nat (level ?a') 1) + or_int (ov_special (getBuildingOverrides g actorId)) 0 - int (length (filter (\<lambda>d. \<not> free d) (filter (\<lambda>d. type_value d = Some ''special'') (facility_items a)))))"
    unfolding w items by blast
  show ?thesis
  proof (cases ty)
    case Basic
    have "length avb \<le> length avb'"
      using lk b1(2) b2(2) by (simp add: Basic table_of_def split: if_splits)
    then show ?thesis using m1 m2 lk b1(1) b2(1) by (simp add: Basic)
  next
    case Special
    have "length avs \<le> length avs'"
      using lk s1(2) s2(2) by (simp add: Special table_of_def)
    then show ?thesis using m1 m2 lk s1(1) s2(1) by (simp add: Special)
  qed
qed

text \<open>The theorem for the basic table \<open>{1: 2, 5: 3}\<close> and the levels 1 and 5.\<close>

theorem max_monotone_in_level_witness:
  "game_actors (sample_game spec_advancement (Some 1) None []) ''a1'' = Some (sample_actor (Some 1) [])
   \<and> level (sample_actor (Some 1) []) = Some 1
   \<and> (1 :: nat) \<le> 5
   \<and> cumulative (table_of Basic (facilities_advancement (sample_game spec_advancement (Some 1) None [])))
   \<and> result_max Basic (prepareFacilitiesContext (sample_game spec_advancement (Some 1) None []) ''a1'') = Some 2
   \<and> result_max Basic (prepareFacilitiesContext (with_level (sample_game spec_advancement (Some 1) None []) ''a1'' (Some 5)) ''a1'') = Some 3
   \<and> (\<exists>av1 av2.
        result_available Basic (prepareFacilitiesContext (sample_game spec_advancement (Some 1) None []) ''a1'') = Some av1
        \<and> result_available Basic (prepareFacilitiesContext (with_level (sample_game spec_advancement (Some 1) None []) ''a1'' (Some 5)) ''a1'') = Some av2
        \<and> length av1 \<le> length av2)"
proof -
  have h: "game_actors (sample_game spec_advancement (Some 1) None []) ''a1'' = Some (sample_actor (Some 1) [])"
    by (simp add: sample_game_def)
  have l: "level (sample_actor (Some 1) []) = Some 1"
    by (simp add: sample_actor_def)
  have le: "(1 :: nat) \<le> 5"
    by simp
  have c: "cumulative (table_of Basic (facilities_advancement (sample_game spec_advancement (Some 1) None [])))"
    by code_simp
  have m1: "result_max Basic (prepareFacilitiesContext (sample_game spec_advancement (Some 1) None []) ''a1'') = Some 2"
    by code_simp
  have m2: "result_max Basic (prepareFacilitiesContext (with_level (sample_game spec_advancement (Some 1) None []) ''a1'' (Some 5)) ''a1'') = Some 3"
    by code_simp
  from max_monotone_in_level [OF h l le c] have
    "\<exists>av1 av2.
        result_available Basic (prepareFacilitiesContext (sample_game spec_advancement (Some 1) None []) ''a1'') = Some av1
        \<and> result_available Basic (prepareFacilitiesContext (with_level (sample_game spec_advancement (Some 1) None []) ''a1'' (Some 5)) ''a1'') = Some av2
        \<and> length av1 \<le> length av2"
    by blast
  with h l le c m1 m2 show ?thesis by blast
qed

text \<open>
  Claim C6 as it is written holds for every table. The table \<open>{1: 5, 3: 2}\<close> gives
  the basic maximum 5 at level 1 and 2 at level 3.
\<close>

theorem max_not_monotone_counterexample:
  "result_max Basic
     (prepareFacilitiesContext
        (sample_game \<lparr>adv_basic = [(1, 5), (3, 2)], adv_special = []\<rparr> (Some 1) None []) ''a1'')
     = Some 5
   \<and> result_max Basic
     (prepareFacilitiesContext
        (sample_game \<lparr>adv_basic = [(1, 5), (3, 2)], adv_special = []\<rparr> (Some 3) None []) ''a1'')
     = Some 2"
  by code_simp

section \<open>Occupant slots\<close>

text \<open>
  Claim C3. Whatever the stored references and however many there are, the slots built
  are as many as the declared capacity (0 when none is declared); an empty reference
  list with capacity 0 gives no slot.
\<close>

theorem occupancy_length_is_capacity:
  "length (prepareOccupants resolve od) = capacity od
   \<and> length (prepareOccupants resolve (Some \<lparr>occ_value = Some refs, occ_max = Some cap\<rparr>)) = cap
   \<and> prepareOccupants resolve (Some \<lparr>occ_value = Some [], occ_max = Some 0\<rparr>) = []"
  by (simp add: prepareOccupants_map capacity_def data_max_def)

text \<open>
  Claim C8, as the code has it. The slots are as many as the declared capacity, the slot
  at an index carries that index, and it is marked empty exactly when no reference is
  stored at the index or the reference stored there does not resolve.
\<close>

theorem slot_empty_iff_unbound:
  assumes "i < capacity od"
  shows "length (prepareOccupants resolve od) = capacity od
         \<and> slot_index (prepareOccupants resolve od ! i) = i
         \<and> (slot_empty (prepareOccupants resolve od ! i) \<longleftrightarrow>
              (case stored_ref od i of None \<Rightarrow> True | Some u \<Rightarrow> resolve u = None))"
  using assms by (simp add: prepareOccupants_map make_slot_empty make_slot_index)

text \<open>
  The theorem for one resolvable reference and capacity 2: the first slot is bound, the
  second is empty.
\<close>

theorem slot_empty_iff_unbound_witness:
  "(0 :: nat) < capacity (Some \<lparr>occ_value = Some [''Actor.guard''], occ_max = Some 2\<rparr>) \<and> 1 < capacity (Some \<lparr>occ_value = Some [''Actor.guard''], occ_max = Some 2\<rparr>)
   \<and> length (prepareOccupants (fromUuid (sample_game spec_advancement None None [])) (Some \<lparr>occ_value = Some [''Actor.guard''], occ_max = Some 2\<rparr>)) = 2
   \<and> \<not> slot_empty (prepareOccupants (fromUuid (sample_game spec_advancement None None [])) (Some \<lparr>occ_value = Some [''Actor.guard''], occ_max = Some 2\<rparr>) ! 0)
   \<and> slot_empty (prepareOccupants (fromUuid (sample_game spec_advancement None None [])) (Some \<lparr>occ_value = Some [''Actor.guard''], occ_max = Some 2\<rparr>) ! 1)"
proof -
  have h0: "0 < capacity (Some \<lparr>occ_value = Some [''Actor.guard''], occ_max = Some 2\<rparr>)" and h1: "1 < capacity (Some \<lparr>occ_value = Some [''Actor.guard''], occ_max = Some 2\<rparr>)" and c: "capacity (Some \<lparr>occ_value = Some [''Actor.guard''], occ_max = Some 2\<rparr>) = 2"
    by code_simp+
  have r0: "(case stored_ref (Some \<lparr>occ_value = Some [''Actor.guard''], occ_max = Some 2\<rparr>) 0 of None \<Rightarrow> True | Some u \<Rightarrow> (fromUuid (sample_game spec_advancement None None [])) u = None) = False"
    by code_simp
  have r1: "(case stored_ref (Some \<lparr>occ_value = Some [''Actor.guard''], occ_max = Some 2\<rparr>) 1 of None \<Rightarrow> True | Some u \<Rightarrow> (fromUuid (sample_game spec_advancement None None [])) u = None) = True"
    by code_simp
  show ?thesis
    using h0 h1 c r0 r1 slot_empty_iff_unbound [OF h0, of "fromUuid (sample_game spec_advancement None None [])"] slot_empty_iff_unbound [OF h1, of "fromUuid (sample_game spec_advancement None None [])"]
    by simp
qed

text \<open>
  Claim C8 as it is written marks a slot empty only when no reference is stored at its
  index. A stored reference that does not resolve gives a slot that is marked empty.
\<close>

theorem dangling_reference_counterexample:
  "stored_ref (Some \<lparr>occ_value = Some [''uuid-A''], occ_max = Some 1\<rparr>) 0 = Some ''uuid-A''
   \<and> slot_empty (prepareOccupants Map.empty (Some \<lparr>occ_value = Some [''uuid-A''], occ_max = Some 1\<rparr>) ! 0)"
  by code_simp

section \<open>Failed drops\<close>

text \<open>
  Claim C9, as the code has it. On the view of an existing actor, a facility drop that
  gets as far as resolving the dropped item (the user owns the actor or is a GM, the
  payload is an item, the target names a facility type) and then finds the item
  missing, of another facility type than the target, or of a level above the actor's,
  and an actor drop on a facility whose occupant list is at its maximum, each end with
  exactly one notification and no mutation, so the actor and its facilities are as
  before. The notification is an error for a missing item and a warning in the other
  three cases.
\<close>

theorem failed_drop_notifies_without_mutation:
  assumes "game_actors g actorId = Some a"
  shows "(facility_drop_admitted g actorId d facilityType \<and> fromUuid g (drag_uuid d) = None
            \<longrightarrow> (\<exists>es. onDropFacility g actorId (Some d) facilityType = Inr es
                  \<and> only_notifies Error ''BASTION_MANAGER.Warnings.ItemNotFound'' a es))
       \<and> (facility_drop_admitted g actorId d facilityType \<and> fromUuid g (drag_uuid d) = Some item
            \<and> doc_type item = ''facility'' \<and> type_value item \<noteq> facilityType
            \<longrightarrow> (\<exists>es. onDropFacility g actorId (Some d) facilityType = Inr es
                  \<and> only_notifies Warn ''BASTION_MANAGER.Warnings.WrongFacilityType'' a es))
       \<and> (facility_drop_admitted g actorId d facilityType \<and> fromUuid g (drag_uuid d) = Some item
            \<and> doc_type item = ''facility'' \<and> type_value item = facilityType
            \<and> or_nat (level a) 0 < or_nat (doc_level item) 0
            \<longrightarrow> (\<exists>es. onDropFacility g actorId (Some d) facilityType = Inr es
                  \<and> only_notifies Warn ''BASTION_MANAGER.Warnings.LevelTooLow'' a es))
       \<and> (drag_type d' = ''Actor'' \<and> fid \<noteq> [] \<and> p \<noteq> []
            \<and> items_get (Some a) fid = Some facility
            \<and> or_nat (data_max (getProperty facility p)) 0
                 \<le> or_nat (map_option length (data_value (getProperty facility p))) 0
            \<longrightarrow> only_notifies Warn ''BASTION_MANAGER.Warnings.SlotFull'' a
                  (onDropActor g actorId (Some d') (Some fid) (Some p)))"
  using assms
  by (auto simp: onDropFacility_missing onDropFacility_mismatch onDropFacility_level
      onDropActor_full only_notifies_single)

text \<open>
  The theorem in the sample world, where the actor has level 4: a UUID that does not
  resolve, the special smithy on a basic slot, the level-5 smithy on a special slot, and a
  guard on the barracks whose one defender slot is taken.
\<close>

theorem failed_drop_notifies_without_mutation_witness:
  "onDropFacility (sample_game spec_advancement (Some 4) None [sample_barracks]) ''a1'' (Some \<lparr>drag_type = ''Item'', drag_uuid = ''Item.gone''\<rparr>) (Some ''special'')
     = Inr [Notify Error ''BASTION_MANAGER.Warnings.ItemNotFound'']
   \<and> onDropFacility (sample_game spec_advancement (Some 4) None [sample_barracks]) ''a1'' (Some \<lparr>drag_type = ''Item'', drag_uuid = ''Item.smithy''\<rparr>) (Some ''basic'')
     = Inr [Notify Warn ''BASTION_MANAGER.Warnings.WrongFacilityType'']
   \<and> onDropFacility (sample_game spec_advancement (Some 4) None [sample_barracks]) ''a1'' (Some \<lparr>drag_type = ''Item'', drag_uuid = ''Item.smithy''\<rparr>) (Some ''special'')
     = Inr [Notify Warn ''BASTION_MANAGER.Warnings.LevelTooLow'']
   \<and> onDropActor (sample_game spec_advancement (Some 4) None [sample_barracks]) ''a1'' (Some \<lparr>drag_type = ''Actor'', drag_uuid = ''Actor.guard''\<rparr>)
       (Some ''barracks'') (Some ''system.defenders'')
     = [Notify Warn ''BASTION_MANAGER.Warnings.SlotFull'']
   \<and> foldl apply_effect (sample_actor (Some 4) [sample_barracks]) [Notify Warn ''BASTION_MANAGER.Warnings.SlotFull''] = (sample_actor (Some 4) [sample_barracks])"
proof -
  let ?g = "(sample_game spec_advancement (Some 4) None [sample_barracks])"
  let ?a = "(sample_actor (Some 4) [sample_barracks])"
  let ?gone = "\<lparr>drag_type = ''Item'', drag_uuid = ''Item.gone''\<rparr>"
  let ?smithy = "\<lparr>drag_type = ''Item'', drag_uuid = ''Item.smithy''\<rparr>"
  let ?guard = "\<lparr>drag_type = ''Actor'', drag_uuid = ''Actor.guard''\<rparr>"
  let ?item = "sample_facility ''smithy'' ''special'' False None"
  have h: "game_actors ?g ''a1'' = Some ?a"
    by (simp add: sample_game_def)
  have adm1: "facility_drop_admitted ?g ''a1'' ?gone (Some ''special'')"
    and adm2: "facility_drop_admitted ?g ''a1'' ?smithy (Some ''basic'')"
    and adm3: "facility_drop_admitted ?g ''a1'' ?smithy (Some ''special'')"
    by code_simp+
  have gone: "fromUuid ?g (drag_uuid ?gone) = None"
    and found: "fromUuid ?g (drag_uuid ?smithy) = Some ?item"
    by (simp_all add: sample_game_def)
  have fac: "doc_type ?item = ''facility''"
    and ty2: "type_value ?item \<noteq> Some ''basic''"
    and ty3: "type_value ?item = Some ''special''"
    and lv: "or_nat (level ?a) 0 < or_nat (doc_level ?item) 0"
    by (simp_all add: sample_facility_def sample_actor_def)
  have tgt: "drag_type ?guard = ''Actor''" "''barracks'' \<noteq> []" "''system.defenders'' \<noteq> []"
    by simp_all
  have got: "items_get (Some ?a) ''barracks'' = Some sample_barracks"
    by (simp add: items_get_def sample_actor_def sample_barracks_def sample_facility_def)
  have full: "or_nat (data_max (getProperty sample_barracks ''system.defenders'')) 0
                \<le> or_nat (map_option length (data_value (getProperty sample_barracks ''system.defenders''))) 0"
    by code_simp
  from failed_drop_notifies_without_mutation
         [OF h, where d = "?gone" and facilityType = "Some ''special''"] adm1 gone
  have c1: "onDropFacility ?g ''a1'' (Some ?gone) (Some ''special'')
              = Inr [Notify Error ''BASTION_MANAGER.Warnings.ItemNotFound'']"
    by (auto simp: only_notifies_def)
  from failed_drop_notifies_without_mutation
         [OF h, where d = "?smithy" and facilityType = "Some ''basic''" and item = "?item"]
       adm2 found fac ty2
  have c2: "onDropFacility ?g ''a1'' (Some ?smithy) (Some ''basic'')
              = Inr [Notify Warn ''BASTION_MANAGER.Warnings.WrongFacilityType'']"
    by (auto simp: only_notifies_def)
  from failed_drop_notifies_without_mutation
         [OF h, where d = "?smithy" and facilityType = "Some ''special''" and item = "?item"]
       adm3 found fac ty3 lv
  have c3: "onDropFacility ?g ''a1'' (Some ?smithy) (Some ''special'')
              = Inr [Notify Warn ''BASTION_MANAGER.Warnings.LevelTooLow'']"
    by (auto simp: only_notifies_def)
  from failed_drop_notifies_without_mutation
         [OF h, where d' = "?guard" and fid = "''barracks''" and p = "''system.defenders''"
            and facility = sample_barracks]
       tgt got full
  have c4: "only_notifies Warn ''BASTION_MANAGER.Warnings.SlotFull'' ?a
              (onDropActor ?g ''a1'' (Some ?guard) (Some ''barracks'') (Some ''system.defenders''))"
    by blast
  from c4 have c5: "onDropActor ?g ''a1'' (Some ?guard) (Some ''barracks'') (Some ''system.defenders'')
              = [Notify Warn ''BASTION_MANAGER.Warnings.SlotFull'']"
    by (simp add: only_notifies_def)
  from c4 c5 have c6: "foldl apply_effect ?a [Notify Warn ''BASTION_MANAGER.Warnings.SlotFull''] = ?a"
    by (simp add: only_notifies_def)
  from c1 c2 c3 c5 c6 show ?thesis by blast
qed

text \<open>
  Claim C9 as it is written has every failed drop raise a warning. A dropped item
  that does not resolve raises \<open>ui.notifications.error\<close>.
\<close>

theorem missing_item_is_an_error_counterexample:
  "fromUuid (sample_game spec_advancement (Some 4) None [sample_barracks]) ''Item.gone'' = None
   \<and> onDropFacility (sample_game spec_advancement (Some 4) None [sample_barracks]) ''a1'' (Some \<lparr>drag_type = ''Item'', drag_uuid = ''Item.gone''\<rparr>) (Some ''special'')
       = Inr [Notify Error ''BASTION_MANAGER.Warnings.ItemNotFound'']
   \<and> onDropFacility (sample_game spec_advancement (Some 4) None [sample_barracks]) ''a1'' (Some \<lparr>drag_type = ''Item'', drag_uuid = ''Item.gone''\<rparr>) (Some ''special'')
       \<noteq> Inr [Notify Warn ''BASTION_MANAGER.Warnings.ItemNotFound'']"
  by code_simp

section \<open>Enabled bastions and visibility\<close>

text \<open>
  Claim C10. \<open>isBastionEnabled\<close> is true unless the stored entry of the actor is the
  boolean \<open>false\<close>: an unset setting, a missing entry, \<open>null\<close>, \<open>0\<close>, the empty string
  and \<open>true\<close> all count as enabled.
\<close>

theorem enabled_unless_false:
  "(isBastionEnabled g actorId \<longleftrightarrow>
      \<not> (\<exists>m. enabledBastions g = Some m \<and> m actorId = Some (JBool False)))
   \<and> isBastionEnabled (g\<lparr>enabledBastions := None\<rparr>) actorId
   \<and> isBastionEnabled (g\<lparr>enabledBastions := Some (m(actorId := None))\<rparr>) actorId
   \<and> isBastionEnabled (g\<lparr>enabledBastions := Some (m(actorId \<mapsto> JNull))\<rparr>) actorId
   \<and> isBastionEnabled (g\<lparr>enabledBastions := Some (m(actorId \<mapsto> JNum 0))\<rparr>) actorId
   \<and> isBastionEnabled (g\<lparr>enabledBastions := Some (m(actorId \<mapsto> JStr ''''))\<rparr>) actorId
   \<and> isBastionEnabled (g\<lparr>enabledBastions := Some (m(actorId \<mapsto> JBool True))\<rparr>) actorId
   \<and> \<not> isBastionEnabled (g\<lparr>enabledBastions := Some (m(actorId \<mapsto> JBool False))\<rparr>) actorId"
  by (auto simp: isBastionEnabled_def js_get_def or_empty_def split: option.splits)

text \<open>
  Claim C2 at two calls that ask about a user other than the one at the client. In the
  sample world \<open>u1\<close> is at the client and owns \<open>a1\<close>, \<open>u2\<close> owns \<open>a2\<close>, neither is a
  GM and nothing is shared. Asked whether \<open>u2\<close> can view \<open>a2\<close>, which \<open>u2\<close> owns,
  \<open>canViewBastion\<close> returns \<open>undefined\<close>; asked whether \<open>u2\<close> can view \<open>a1\<close>, on which
  \<open>u2\<close> has none of the four grounds, it returns \<open>true\<close>.
\<close>

theorem canViewBastion_reads_client_ownership:
  "may_view (sample_game spec_advancement None None []) ''a2'' ''u2''
   \<and> canViewBastion (sample_game spec_advancement None None []) ''a2'' ''u2'' = JUndefined
   \<and> \<not> may_view (sample_game spec_advancement None None []) ''a1'' ''u2''
   \<and> canViewBastion (sample_game spec_advancement None None []) ''a1'' ''u2'' = JBool True"
  by (simp add: may_view_def user_is_gm_def user_owns_def marked_public_def shared_with_def
      canViewBastion_def sample_game_def sample_actor_def sample_actor2_def or_empty_def
      js_or_def users_includes_def OWNER_def)

end
